theory Spec2Isabelle
  imports Complex_Main
begin

section \<open>Shared vocabulary: options, effects, outcomes\<close>

text \<open>
  The module \<open>locust/main.py\<close> is one long procedure, \<open>main()\<close>, with nested
  closures. Each closure and each stage of \<open>main()\<close> is embedded as a function that
  returns the list of externally visible calls it makes, in program order (its trace),
  together with how it ends: by \<open>sys.exit(code)\<close> or by returning.

  Values that come from outside the module (the command line, the operating system, the
  runner, the clock) are parameters of the functions.
\<close>

datatype log_level = DEBUG | INFO | WARNING | ERROR

datatype signal_name = SIGINT | SIGKILL

text \<open>
  The calls the module makes on its collaborators. Log and stderr lines carry the constant
  part of the message; interpolated values are left out of the text.
\<close>

datatype effect =
    Stderr string
  | Log log_level string
  | Print string
  | Fork int
  | OsKill int signal_name
  | AtexitRegister string
  | Sleep real
  | RunnerStop
  | RunnerQuit
  | RunnerStartShape
  | ShapeGreenletJoin
  | WebUiStop
  | GreenletKill string
  | Spawn string
  | SpawnLater int string
  | FireQuitting
  | FireQuit int
  | PrintStatsJson
  | SaveStatsJson string
  | PrintStats
  | PrintPercentileStats
  | PrintErrorReport

text \<open>
  How a piece of code ends: by \<open>sys.exit(code)\<close>, by an exception nobody catches, or
  normally with a value. Code that waits on the outside world is run on a finite list of
  observations; \<open>Pending\<close> says that the list is used up and the code is still waiting.
\<close>

datatype 'a outcome = SysExit int | Raises string | Returns 'a | Pending

text \<open>
  The parsed command line, \<open>options\<close>. Fields that the code tests for truth and that may
  be \<open>None\<close> are options here: \<open>autostart\<close> is a flag that the forking loop resets to
  \<open>None\<close> in a child, \<open>processes\<close>, \<open>run_time\<close>, \<open>csv_prefix\<close>, \<open>html_file\<close> and
  \<open>json_file\<close> are absent unless given.
\<close>

record options =
  headless :: bool
  headful :: bool
  autostart :: "bool option"
  autoquit :: int
  processes :: "int option"
  master :: bool
  worker :: bool
  expect_workers :: int
  expect_workers_max_wait :: int
  run_time :: "int option"
  csv_prefix :: "string option"
  html_file :: "string option"
  json :: bool
  json_file :: "string option"
  exit_code_on_error :: int
  list_commands :: bool
  user_classes_opt :: "string list"
  show_task_ratio :: bool
  show_task_ratio_json :: bool
  num_users :: "int option"
  spawn_rate :: "int option"

text \<open>Python truth of the optional values: \<open>None\<close>, \<open>False\<close>, \<open>0\<close> and \<open>""\<close> are false.\<close>

fun truthy_bool :: "bool option \<Rightarrow> bool" where
  "truthy_bool None = False"
| "truthy_bool (Some b) = b"

fun truthy_int :: "int option \<Rightarrow> bool" where
  "truthy_int None = False"
| "truthy_int (Some n) = (n \<noteq> 0)"

fun truthy_str :: "string option \<Rightarrow> bool" where
  "truthy_str None = False"
| "truthy_str (Some s) = (s \<noteq> [])"

text \<open>The command line with nothing given: the values a bare \<open>locust\<close> call parses to.\<close>

definition default_options :: options where
  "default_options =
     \<lparr> headless = False, headful = False, autostart = Some False, autoquit = - 1,
       processes = None, master = False, worker = False, expect_workers = 1,
       expect_workers_max_wait = 0, run_time = None, csv_prefix = None,
       html_file = None, json = False, json_file = None, exit_code_on_error = 1,
       list_commands = False, user_classes_opt = [], show_task_ratio = False,
       show_task_ratio_json = False, num_users = None, spawn_rate = None \<rparr>"

section \<open>The shutdown closure\<close>

text \<open>
  What \<open>shutdown()\<close> reads besides \<open>options\<close>: which greenlet variables of \<open>main()\<close>
  are not \<open>None\<close>, \<open>environment.process_exit_code\<close>, the lengths of \<open>runner.errors\<close> and
  \<open>runner.exceptions\<close>, \<open>log.unhandled_greenlet_exception\<close>, and whether the runner is a
  \<open>WorkerRunner\<close>.
\<close>

record run_state =
  input_listener_greenlet :: bool
  stats_printer_greenlet :: bool
  headless_master_greenlet :: bool
  process_exit_code :: "int option"
  runner_errors :: nat
  runner_exceptions :: nat
  unhandled_greenlet_exception :: bool
  runner_is_worker :: bool

text \<open>Lines 631 to 639: the \<open>if\<close>/\<open>elif\<close> chain that determines the process exit code.\<close>

definition determine_exit_code :: "options \<Rightarrow> run_state \<Rightarrow> int" where
  "determine_exit_code opts st =
     (case process_exit_code st of
        Some c \<Rightarrow> c
      | None \<Rightarrow>
          if 0 < runner_errors st \<or> 0 < runner_exceptions st then exit_code_on_error opts
          else if unhandled_greenlet_exception st then 2
          else 0)"

text \<open>Lines 650 to 657: the statistics output. The \<open>elif\<close> belongs to the second \<open>if\<close>.\<close>

definition print_final_stats :: "options \<Rightarrow> run_state \<Rightarrow> effect list" where
  "print_final_stats opts st =
     (if json opts then [PrintStatsJson] else []) @
     (if truthy_str (json_file opts) then [SaveStatsJson (the (json_file opts))]
      else if \<not> runner_is_worker st then [PrintStats, PrintPercentileStats, PrintErrorReport]
      else [])"

text \<open>
  \<open>shutdown()\<close>, lines 620 to 659. The listeners of the \<open>quitting\<close> event run before the
  exit code is determined and may set \<open>environment.process_exit_code\<close>; they are the
  parameter \<open>quitting\<close>. The function always ends in \<open>sys.exit(code)\<close>: the result is the
  trace and that code. The runner exists whenever \<open>shutdown()\<close> can be called, so the
  test \<open>runner is not None\<close> is true.
\<close>

definition shutdown :: "(run_state \<Rightarrow> run_state) \<Rightarrow> options \<Rightarrow> run_state \<Rightarrow> effect list \<times> int" where
  "shutdown quitting opts st0 =
     (let st = quitting st0;
          code = determine_exit_code opts st
      in ([Log DEBUG ''Running teardowns...''] @
          (if input_listener_greenlet st0 then [GreenletKill ''input_listener_greenlet''] else []) @
          [FireQuitting, Log INFO ''Shutting down (exit code)''] @
          (if stats_printer_greenlet st then [GreenletKill ''stats_printer_greenlet''] else []) @
          (if headless_master_greenlet st then [GreenletKill ''headless_master_greenlet''] else []) @
          [Log DEBUG ''Cleaning up runner...'', RunnerQuit] @
          print_final_stats opts st @
          [FireQuit code],
          code))"

definition quiet_state :: run_state where
  "quiet_state =
     \<lparr> input_listener_greenlet = True, stats_printer_greenlet = False,
       headless_master_greenlet = False, process_exit_code = None, runner_errors = 0,
       runner_exceptions = 0, unhandled_greenlet_exception = False,
       runner_is_worker = False \<rparr>"

section \<open>The automatic run controller\<close>

text \<open>
  \<open>stop_and_optionally_quit()\<close>, lines 506 to 522; \<open>web_ui\<close> says whether the web
  UI exists. The function neither exits nor raises: it returns after the calls listed.
  Importing \<open>locust\<close> replaces \<open>time.sleep\<close> by the sleep of gevent, which returns
  for every length, also for a negative \<open>--autoquit\<close>.
\<close>

definition stop_and_optionally_quit :: "options \<Rightarrow> bool \<Rightarrow> effect list" where
  "stop_and_optionally_quit opts web_ui =
     (if truthy_bool (autostart opts) \<and> \<not> headless opts then
        [Log INFO ''--run-time limit reached, stopping test'', RunnerStop] @
        (if autoquit opts \<noteq> - 1 then
           [Log DEBUG ''Autoquit time limit set'', Sleep (of_int (autoquit opts)),
            Log INFO ''--autoquit time reached, shutting down'', RunnerQuit] @
           (if web_ui then [WebUiStop] else [])
         else [Log INFO ''--autoquit not specified, leaving web ui running indefinitely''])
      else [Log INFO ''--run-time limit reached, shutting down'', RunnerQuit])"

text \<open>
  One round of the loop that waits for workers reads the number of ready clients, then
  the monotonic clock for the give-up test (only when a maximum wait is set), then the
  clock again to choose the log level.
\<close>

record poll_obs =
  ready_workers :: nat
  clock_abort :: real
  clock_log :: real

text \<open>Lines 539 to 559, the \<open>while\<close> loop, on the rounds observed so far.\<close>

fun wait_for_workers :: "options \<Rightarrow> real \<Rightarrow> poll_obs list \<Rightarrow> effect list \<times> unit outcome" where
  "wait_for_workers opts start_time [] = ([], Pending)"
| "wait_for_workers opts start_time (ob # obs) =
     (if int (ready_workers ob) < expect_workers opts then
        if expect_workers_max_wait opts \<noteq> 0
           \<and> of_int (expect_workers_max_wait opts) < clock_abort ob - start_time
        then ([Log ERROR ''Gave up waiting for workers to connect'', RunnerQuit], SysExit 1)
        else
          (let (tr, out) = wait_for_workers opts start_time obs
           in ((if clock_log ob - start_time > 5
                then Log INFO ''Waiting for workers to be ready''
                else Log DEBUG ''Waiting for workers to be ready'') # Sleep 1 # tr, out))
      else ([], Returns ()))"

text \<open>How the join on the shape greenlet ends: normally or by \<open>KeyboardInterrupt\<close>.\<close>

datatype shape_end = ShapeDone | ShapeInterrupted

text \<open>
  Lines 560 to 578: the start of the test on a process that is not a worker. The result
  holds \<open>options\<close> with the headless defaults filled in.
\<close>

definition start_test :: "options \<Rightarrow> bool \<Rightarrow> bool \<Rightarrow> shape_end \<Rightarrow> effect list \<times> options outcome" where
  "start_test opts web_ui shape_class shape =
     (let opts1 = opts\<lparr>num_users := (if num_users opts = None then Some 1 else num_users opts)\<rparr>;
          opts2 = opts1\<lparr>spawn_rate := (if spawn_rate opts1 = None then Some 1 else spawn_rate opts1)\<rparr>
      in if shape_class then
           ([RunnerStartShape, ShapeGreenletJoin] @
            (if shape = ShapeInterrupted then [Log INFO ''Exiting due to CTRL+C interruption'']
             else []) @ stop_and_optionally_quit opts2 web_ui,
            Returns opts2)
         else ([Spawn ''runner.start''], Returns opts2))"

text \<open>\<open>start_automatic_run()\<close>, lines 535 to 584.\<close>

definition start_automatic_run ::
  "options \<Rightarrow> bool \<Rightarrow> bool \<Rightarrow> real \<Rightarrow> poll_obs list \<Rightarrow> shape_end \<Rightarrow> effect list \<times> options outcome" where
  "start_automatic_run opts web_ui shape_class start_time obs shape =
     (let (tr1, out1) = (if master opts then wait_for_workers opts start_time obs
                         else ([], Returns ()))
      in case out1 of
           SysExit c \<Rightarrow> (tr1, SysExit c)
         | Raises e \<Rightarrow> (tr1, Raises e)
         | Pending \<Rightarrow> (tr1, Pending)
         | Returns _ \<Rightarrow>
             (let (tr2, out2) = (if \<not> worker opts then start_test opts web_ui shape_class shape
                                 else ([], Returns opts))
              in case out2 of
                   Returns opts2 \<Rightarrow>
                     (tr1 @ tr2 @
                      (if truthy_int (run_time opts2)
                       then [Log INFO ''Run time limit set'',
                             SpawnLater (the (run_time opts2)) ''stop_and_optionally_quit'']
                       else if \<not> worker opts2 \<and> \<not> shape_class
                       then [Log INFO ''No run time limit set, use CTRL+C to interrupt'']
                       else []),
                      Returns opts2)
                 | other \<Rightarrow> (tr1 @ tr2, other)))"

text \<open>A poll that finds two ready workers at clock reading \<open>t\<close>.\<close>

definition two_of_three :: "real \<Rightarrow> poll_obs" where
  "two_of_three t = \<lparr>ready_workers = 2, clock_abort = t, clock_log = t\<rparr>"

section \<open>Process topology\<close>

text \<open>
  What \<open>os.waitpid\<close> reports of a child that has ended, and
  \<open>os.waitstatus_to_exitcode\<close> of the Python library on it: the exit status of a child
  that exited, minus the signal number of a child that a signal killed.
\<close>

datatype child_status = Exited nat | Signaled nat

fun waitstatus_to_exitcode :: "child_status \<Rightarrow> int" where
  "waitstatus_to_exitcode (Exited n) = int n"
| "waitstatus_to_exitcode (Signaled s) = - int s"

text \<open>How \<open>os.kill\<close> ends: normally, with \<open>ProcessLookupError\<close>, or with another error.\<close>

datatype kill_result = Delivered | ProcessLookupError | OtherKillError

text \<open>
  Lines 186 to 218: the checks of \<open>main()\<close> that come before the forking loop, with
  \<open>os.name\<close> and the value of \<open>os.cpu_count()\<close> as parameters. The result holds
  \<open>options\<close> as the checks leave it.
\<close>

definition pre_fork_checks :: "string \<Rightarrow> int option \<Rightarrow> options \<Rightarrow> effect list \<times> options outcome" where
  "pre_fork_checks os_name cpu_count opts0 =
     (let opts = (if headful opts0 then opts0\<lparr>headless := False\<rparr> else opts0)
      in if autoquit opts \<noteq> - 1 \<and> \<not> truthy_bool (autostart opts) then
           ([Stderr ''--autoquit is only meaningful in combination with --autostart''], SysExit 1)
         else if truthy_int (processes opts) then
           if os_name = ''nt'' then
             ([Log INFO ''Starting Locust'',
               Stderr ''--processes is not supported in Windows (except in WSL)''], SysExit 1)
           else if processes opts = Some (- 1) then
             if truthy_int cpu_count then
               ([Log INFO ''Starting Locust''], Returns (opts\<lparr>processes := cpu_count\<rparr>))
             else
               ([Log INFO ''Starting Locust'',
                 Stderr ''--processes failed to detect number of cpus!?''], SysExit 1)
           else if the (processes opts) < - 1 then
             ([Log INFO ''Starting Locust'', Stderr ''Invalid --processes count''], SysExit 1)
           else if master opts then
             ([Log INFO ''Starting Locust'',
               Stderr ''--master cannot be combined with --processes. Remove --master, as it is implicit as long as --worker is not set.''],
              SysExit 1)
           else ([Log INFO ''Starting Locust''], Returns opts)
         else ([Log INFO ''Starting Locust''], Returns opts))"

text \<open>
  One process as the forking loop sees it: its \<open>options\<close> and its list \<open>children\<close>.
  A forked child starts as a copy of its parent at the moment of the fork.
\<close>

record proc =
  proc_options :: options
  children :: "int list"

text \<open>
  Lines 224 to 235, the body of the loop, for the value that \<open>gevent.fork()\<close> returns in
  the process that runs it: the child's process id in the parent, \<open>0\<close> in the child. The
  flag says whether the body leaves the loop by \<open>break\<close>.
\<close>

definition fork_body :: "int \<Rightarrow> proc \<Rightarrow> proc \<times> effect list \<times> bool" where
  "fork_body child_pid p =
     (if child_pid \<noteq> 0 then
        (p\<lparr>children := children p @ [child_pid]\<rparr>,
         [Log DEBUG ''Started child worker with pid''], False)
      else
        (p\<lparr>proc_options := (proc_options p)\<lparr>worker := True, run_time := None,
              autostart := None, csv_prefix := None, html_file := None\<rparr>\<rparr>,
         [], True))"

text \<open>
  Lines 223 to 235: \<open>for _ in range(options.processes)\<close>, run by a process \<open>p\<close>
  with \<open>n\<close> rounds left. A round calls \<open>gevent.fork()\<close>, which makes a copy of the
  calling process. Both processes go on from the call inside the same loop with the same
  rounds left: the copy with the return value \<open>0\<close> and an empty trace of its own, the
  caller with the process id of the copy. Whether either of them forks again is decided
  by the body alone, through its \<open>break\<close>. The system numbers the processes it creates:
  \<open>k\<close> counts those created so far, and the next one gets the id \<open>fresh k\<close>.

  The result is the process \<open>p\<close> at the end of its loop with its trace and with the flag
  that says whether it left by \<open>break\<close> (then the \<open>else\<close> of the loop is skipped), the
  processes that came into being in the meantime, each at the end of its own loop in the
  same way, and the count of processes created.
\<close>

fun fork_loop ::
  "(nat \<Rightarrow> int) \<Rightarrow> nat \<Rightarrow> nat \<Rightarrow> proc \<Rightarrow> effect list
     \<Rightarrow> (proc \<times> effect list \<times> bool) \<times> (proc \<times> effect list \<times> bool) list \<times> nat" where
  "fork_loop fresh k 0 p tr = ((p, tr, False), [], k)"
| "fork_loop fresh k (Suc n) p tr =
     (let (pc, trc, brkc) = fork_body 0 p;
          (child, below, k1) =
            (if brkc then ((pc, trc, True), [], Suc k)
             else fork_loop fresh (Suc k) n pc trc);
          (pp, trp, brkp) = fork_body (fresh k) p
      in if brkp then ((pp, tr @ Fork (fresh k) # trp, True), child # below, k1)
         else (let (parent, later, k2) = fork_loop fresh k1 n pp (tr @ Fork (fresh k) # trp)
               in (parent, child # below @ later, k2)))"

text \<open>
  Lines 240 to 252, \<open>sigint_handler\<close>, with the attribute \<open>has_run\<close> of the handler as a
  flag. The handler either leaves by \<open>sys.exit(1)\<close> or returns with the flag set.
\<close>

fun kill_children :: "(int \<Rightarrow> kill_result) \<Rightarrow> int list \<Rightarrow> effect list" where
  "kill_children os_kill [] = []"
| "kill_children os_kill (child_pid # rest) =
     [Log DEBUG ''Sending SIGKILL to child with pid'', OsKill child_pid SIGKILL] @
     (if os_kill child_pid = OtherKillError then [Log ERROR ''traceback''] else []) @
     kill_children os_kill rest"

definition sigint_handler :: "(int \<Rightarrow> kill_result) \<Rightarrow> int list \<Rightarrow> bool \<Rightarrow> effect list \<times> bool outcome" where
  "sigint_handler os_kill chn has_run =
     (if has_run then (kill_children os_kill chn, SysExit 1) else ([], Returns True))"

text \<open>
  What happens to the parent while it waits: an interrupt signal arrives, or the blocking
  \<open>os.waitpid\<close> on the child it currently waits for returns that child's status.
\<close>

datatype parent_event = Interrupt | Reaped child_status

text \<open>
  Lines 255 to 261: the parent of workers waits for each child in turn and keeps the
  largest exit code; \<open>chn\<close> is the whole list of children, which the handler uses,
  \<open>waiting\<close> the part of it not yet waited for.
\<close>

fun parent_wait ::
  "(int \<Rightarrow> kill_result) \<Rightarrow> int list \<Rightarrow> int list \<Rightarrow> bool \<Rightarrow> int \<Rightarrow> parent_event list
     \<Rightarrow> effect list \<times> unit outcome" where
  "parent_wait os_kill chn [] has_run exit_code evs = ([], SysExit exit_code)"
| "parent_wait os_kill chn (c # waiting) has_run exit_code [] = ([], Pending)"
| "parent_wait os_kill chn (c # waiting) has_run exit_code (Interrupt # evs) =
     (case sigint_handler os_kill chn has_run of
        (tr, Returns has_run') \<Rightarrow>
          (let (tr', out) = parent_wait os_kill chn (c # waiting) has_run' exit_code evs
           in (tr @ tr', out))
      | (tr, SysExit code) \<Rightarrow> (tr, SysExit code)
      | (tr, Raises e) \<Rightarrow> (tr, Raises e)
      | (tr, Pending) \<Rightarrow> (tr, Pending))"
| "parent_wait os_kill chn (c # waiting) has_run exit_code (Reaped status # evs) =
     parent_wait os_kill chn waiting has_run
       (max exit_code (waitstatus_to_exitcode status)) evs"







text \<open>
  Lines 236 to 300: the \<open>else\<close> of the forking loop, which only the parent reaches. A
  parent started as a worker installs the handler and waits for its children, then
  exits; any other parent becomes the master and goes on.
\<close>

definition parent_after_fork ::
  "(int \<Rightarrow> kill_result) \<Rightarrow> parent_event list \<Rightarrow> proc \<Rightarrow> effect list \<times> proc outcome" where
  "parent_after_fork os_kill evs p =
     (if worker (proc_options p) then
        (let (tr, out) = parent_wait os_kill (children p) (children p) False 0 evs
         in (tr, map_outcome (\<lambda>_. p) out))
      else
        ([AtexitRegister ''kill_workers''],
         Returns (p\<lparr>proc_options := (proc_options p)\<lparr>master := True,
                     expect_workers := the (processes (proc_options p))\<rparr>\<rparr>)))"

section \<open>Merging locustfiles\<close>

text \<open>
  \<open>merge_locustfiles_content\<close> compares two User classes by what \<open>inspect.getfile\<close>
  reports for them at the moment of the comparison. For a class, \<open>inspect.getfile\<close>
  looks up the module named by the attribute \<open>__module__\<close> of the class in
  \<open>sys.modules\<close> and returns the \<open>__file__\<close> of the module found there. So
  \<open>sys.modules\<close> is part of the state: it is read here as the function from a module
  name to the file of the module registered under that name. Of a User class the merge
  reads the module name and the \<open>tasks\<close>; of a shape class instance the name of its
  type. The classes that \<open>load_locustfile\<close> returns come from imported source files,
  whose modules are registered with their files; the error that \<open>inspect.getfile\<close>
  raises for a class without such a module is not part of the model.
\<close>

type_synonym sys_modules = "string \<Rightarrow> string"

record user_class =
  class_module :: string
  tasks :: "string list"

record shape_instance =
  type_name :: string

definition getfile :: "sys_modules \<Rightarrow> user_class \<Rightarrow> string" where
  "getfile modules c = modules (class_module c)"

text \<open>
  \<open>load_locustfile\<close> imports the file at a path, which registers modules in
  \<open>sys.modules\<close>, and gives a dictionary from class names to User classes, here a list
  of pairs in the dictionary's order, and a list of shape class instances. As a function
  it takes \<open>sys.modules\<close> and returns it changed, beside its result.
\<close>

type_synonym locustfile_content = "(string \<times> user_class) list \<times> shape_instance list"

type_synonym loader = "string \<Rightarrow> sys_modules \<Rightarrow> locustfile_content \<times> sys_modules"

text \<open>The three dictionaries the function builds, in insertion order.\<close>

record merged =
  available_user_classes :: "(string \<times> user_class) list"
  available_shape_classes :: "(string \<times> shape_instance) list"
  available_user_tasks :: "(string \<times> string list) list"

text \<open>Lines 130 to 136: the loop over the shape classes of one locustfile.\<close>

fun merge_shape_classes :: "shape_instance list \<Rightarrow> merged \<Rightarrow> effect list \<times> merged outcome" where
  "merge_shape_classes [] m = ([], Returns m)"
| "merge_shape_classes (s # rest) m =
     (if type_name s \<in> set (map fst (available_shape_classes m)) then
        ([Stderr ''Duplicate shape classes''], SysExit 1)
      else
        merge_shape_classes rest
          (m\<lparr>available_shape_classes := available_shape_classes m @ [(type_name s, s)]\<rparr>))"

text \<open>
  Lines 139 to 153: the loop over the User classes of one locustfile, with
  \<open>sys.modules\<close> as the load of that locustfile left it.
\<close>

fun merge_user_classes ::
  "sys_modules \<Rightarrow> (string \<times> user_class) list \<Rightarrow> merged \<Rightarrow> effect list \<times> merged outcome" where
  "merge_user_classes modules [] m = ([], Returns m)"
| "merge_user_classes modules ((class_name, class_definition) # rest) m =
     (case map_of (available_user_classes m) class_name of
        Some previous \<Rightarrow>
          (let previous_path = getfile modules previous;
               new_path = getfile modules class_definition
           in if previous_path = new_path then merge_user_classes modules rest m
              else ([Stderr ''Duplicate user class names''], SysExit 1))
      | None \<Rightarrow>
          merge_user_classes modules rest
            (m\<lparr>available_user_classes :=
                   available_user_classes m @ [(class_name, class_definition)],
               available_user_tasks :=
                   available_user_tasks m @ [(class_name, tasks class_definition)]\<rparr>))"

text \<open>
  Lines 126 to 153: the loop over the locustfiles. The two inner loops write to stderr
  only when they exit, so the trace of a pass that returns is empty.
\<close>

fun merge_files ::
  "loader \<Rightarrow> string list \<Rightarrow> sys_modules \<Rightarrow> merged \<Rightarrow> effect list \<times> merged outcome" where
  "merge_files load_locustfile [] modules m = ([], Returns m)"
| "merge_files load_locustfile (f # files) modules m =
     (case load_locustfile f modules of
        ((user_classes, shape_classes), modules') \<Rightarrow>
          (case merge_shape_classes shape_classes m of
             (tr, Returns m1) \<Rightarrow>
               (case merge_user_classes modules' user_classes m1 of
                  (tr', Returns m2) \<Rightarrow> merge_files load_locustfile files modules' m2
                | other \<Rightarrow> other)
           | other \<Rightarrow> other))"

text \<open>
  \<open>merge_locustfiles_content\<close>, lines 105 to 157: the three dictionaries and the first
  shape class, if any. \<open>modules\<close> is \<open>sys.modules\<close> at the call.
\<close>

definition merge_locustfiles_content ::
  "loader \<Rightarrow> sys_modules \<Rightarrow> string list
     \<Rightarrow> effect list \<times> (merged \<times> shape_instance option) outcome" where
  "merge_locustfiles_content load_locustfile modules locustfiles =
     (let (tr, out) =
            merge_files load_locustfile locustfiles modules
              \<lparr>available_user_classes = [], available_shape_classes = [],
               available_user_tasks = []\<rparr>
      in (tr, map_outcome
                (\<lambda>m. (m, if available_shape_classes m \<noteq> []
                          then Some (snd (hd (available_shape_classes m))) else None))
                out))"

section \<open>The checks after the fork\<close>

text \<open>
  How applying \<open>options.config_users\<close> ends, when the option is given, and the runner
  that \<open>main()\<close> creates.
\<close>

datatype config_end = ConfigApplied | ConfigKeyError | ConfigException

datatype runner_kind = MasterRunner | WorkerRunner | LocalRunner

text \<open>
  Lines 304 to 426, the places where \<open>main()\<close> can exit between the fork and the
  creation of the runner: listing, missing or unknown User classes, the user
  configuration, the task ratio output, and the checks of the role flags. The
  parameters are the names of the available User classes, how the user configuration
  ends (\<open>None\<close> when there is none), and whether a worker can connect to its master.
  Log lines that depend on nothing but values not modelled here are left out.
\<close>

definition post_fork_checks ::
  "string list \<Rightarrow> config_end option \<Rightarrow> bool \<Rightarrow> options \<Rightarrow> effect list \<times> runner_kind outcome" where
  "post_fork_checks available config connects opts =
     (if list_commands opts then
        (Print ''Available Users:'' # map (\<lambda>name. Print (''    '' @ name)) available, SysExit 0)
      else if available = [] then ([Log ERROR ''No User class found!''], SysExit 1)
      else if user_classes_opt opts \<noteq> []
              \<and> \<not> set (user_classes_opt opts) \<subseteq> set available then
        ([Log ERROR ''Unknown User(s)''], SysExit 1)
      else if config = Some ConfigKeyError then
        ([Log ERROR ''Error applying user config''], SysExit (- 1))
      else if config = Some ConfigException then
        ([Log ERROR ''exception''], SysExit (- 1))
      else if show_task_ratio opts then ([Print ''Task ratio per User class''], SysExit 0)
      else if show_task_ratio_json opts then ([Print ''task ratio json''], SysExit 0)
      else if master opts then
        if worker opts then
          ([Log ERROR ''The --master argument cannot be combined with --worker''], SysExit (- 1))
        else if expect_workers opts < 1 then
          ([Log ERROR ''Invalid --expect-workers argument, must be a positive number''],
           SysExit (- 1))
        else ([], Returns MasterRunner)
      else if worker opts then
        if connects then ([Log DEBUG ''Connected to locust master''], Returns WorkerRunner)
        else ([Log ERROR ''Failed to connect to the Locust master''], SysExit (- 1))
      else ([], Returns LocalRunner))"

section \<open>Startup of the first process\<close>

text \<open>What \<open>main()\<close> takes from outside between its start and the creation of the runner.\<close>

record world =
  world_load_locustfile :: loader
  world_sys_modules :: sys_modules
  world_os_name :: string
  world_cpu_count :: "int option"
  world_fresh_pid :: "nat \<Rightarrow> int"
  world_os_kill :: "int \<Rightarrow> kill_result"
  world_parent_events :: "parent_event list"
  world_config_users :: "config_end option"
  world_connects :: bool

text \<open>
  Lines 202 to 300 for the process started from the command line: nothing without
  \<open>--processes\<close>; otherwise the forking loop and what the parent does after it.
\<close>

definition fork_stage :: "world \<Rightarrow> options \<Rightarrow> effect list \<times> proc outcome" where
  "fork_stage w opts =
     (if truthy_int (processes opts) then
        (case fork_loop (world_fresh_pid w) 0 (nat (the (processes opts)))
                \<lparr>proc_options = opts, children = []\<rparr> [] of
           ((p, tr, brk), kids, created) \<Rightarrow>
             if brk then (tr, Returns p)
             else (let (tr', out) = parent_after_fork (world_os_kill w) (world_parent_events w) p
                   in (tr @ tr', out)))
      else ([], Returns \<lparr>proc_options = opts, children = []\<rparr>))"

text \<open>
  \<open>main()\<close> from line 160 to line 426, for the process started from the command line:
  the merge of the locustfiles, the checks before the fork, the fork, the checks after
  it. It ends in an exit or with the options and the kind of runner created. No
  greenlet is spawned in this part; the first \<open>gevent.spawn\<close> is on line 530.
  The hand-over to \<open>locust_cloud\<close> (lines 165 and 181), the call of
  \<open>stats.validate_stats_configuration()\<close> and the raising of the open file limit are
  not part of the model.
\<close>

definition main_startup ::
  "world \<Rightarrow> string list \<Rightarrow> options \<Rightarrow> effect list \<times> (options \<times> runner_kind) outcome" where
  "main_startup w locustfiles opts0 =
     (case merge_locustfiles_content (world_load_locustfile w) (world_sys_modules w)
             locustfiles of
        (tr0, Returns (m, shape)) \<Rightarrow>
          (case pre_fork_checks (world_os_name w) (world_cpu_count w) opts0 of
             (tr1, Returns opts1) \<Rightarrow>
               (case fork_stage w opts1 of
                  (tr2, Returns p) \<Rightarrow>
                    (let (tr3, out) =
                           post_fork_checks (map fst (available_user_classes m))
                             (world_config_users w) (world_connects w) (proc_options p)
                     in (tr0 @ tr1 @ tr2 @ tr3,
                         map_outcome (\<lambda>r. (proc_options p, r)) out))
                | (tr2, other) \<Rightarrow> (tr0 @ tr1 @ tr2, map_outcome (\<lambda>p. (opts1, LocalRunner)) other))
           | (tr1, other) \<Rightarrow> (tr0 @ tr1, map_outcome (\<lambda>opts. (opts, LocalRunner)) other))
      | (tr0, other) \<Rightarrow> (tr0, map_outcome (\<lambda>_. (opts0, LocalRunner)) other))"

text \<open>
  Whether \<open>main()\<close>, once the runner exists, calls \<open>start_automatic_run()\<close>, which is the
  only caller of \<open>spawn_run_time_quit_greenlet()\<close>: lines 589 and 678.
\<close>

definition calls_start_automatic_run :: "options \<Rightarrow> bool" where
  "calls_start_automatic_run opts = (headless opts \<or> truthy_bool (autostart opts))"

text \<open>One locustfile with one User class and no shape class, and a world around it.\<close>

definition one_user_file :: locustfile_content where
  "one_user_file = ([(''WebsiteUser'', \<lparr>class_module = ''locustfile'', tasks = [''index'']\<rparr>)], [])"

definition plain_world :: world where
  "plain_world =
     \<lparr> world_load_locustfile = (\<lambda>_ modules. (one_user_file, modules)),
       world_sys_modules = (\<lambda>_. ''locustfile.py''),
       world_os_name = ''posix'', world_cpu_count = Some 4,
       world_fresh_pid = (\<lambda>i. 100 + int i), world_os_kill = (\<lambda>_. Delivered), world_parent_events = [],
       world_config_users = None, world_connects = True \<rparr>"

section \<open>Auxiliary notions for the proofs\<close>









section \<open>Exit code precedence\<close>

text \<open>
  C1. The exit code \<open>shutdown()\<close> ends with follows this precedence, read on the state
  left by the \<open>quitting\<close> listeners: an explicit \<open>environment.process_exit_code\<close> is used
  whatever else holds; otherwise a non-zero number of request errors or of exceptions
  gives the configured \<open>exit_code_on_error\<close>; otherwise a recorded unhandled greenlet
  exception gives 2; otherwise the code is 0. The same code is passed to the \<open>quit\<close> event.
\<close>

theorem shutdown_exit_code_precedence:
  "snd (shutdown quitting opts st0) =
     (let st = quitting st0 in
      if process_exit_code st \<noteq> None then the (process_exit_code st)
      else if runner_errors st \<noteq> 0 \<or> runner_exceptions st \<noteq> 0 then exit_code_on_error opts
      else if unhandled_greenlet_exception st then 2
      else 0)
   \<and> last (fst (shutdown quitting opts st0)) = FireQuit (snd (shutdown quitting opts st0))"
  by (auto simp: shutdown_def determine_exit_code_def Let_def split: option.splits)

theorem shutdown_exit_code_precedence_witness:
  "snd (shutdown id (default_options\<lparr>exit_code_on_error := 7\<rparr>)
          (quiet_state\<lparr>process_exit_code := Some 42, runner_errors := 3,
                        unhandled_greenlet_exception := True\<rparr>)) = 42
   \<and> snd (shutdown id (default_options\<lparr>exit_code_on_error := 7\<rparr>)
          (quiet_state\<lparr>runner_exceptions := 1, unhandled_greenlet_exception := True\<rparr>)) = 7
   \<and> snd (shutdown id default_options
          (quiet_state\<lparr>unhandled_greenlet_exception := True\<rparr>)) = 2
   \<and> snd (shutdown id default_options quiet_state) = 0"
  using shutdown_exit_code_precedence [of id "default_options\<lparr>exit_code_on_error := 7\<rparr>"
      "quiet_state\<lparr>process_exit_code := Some 42, runner_errors := 3,
                    unhandled_greenlet_exception := True\<rparr>"]
    shutdown_exit_code_precedence [of id "default_options\<lparr>exit_code_on_error := 7\<rparr>"
      "quiet_state\<lparr>runner_exceptions := 1, unhandled_greenlet_exception := True\<rparr>"]
    shutdown_exit_code_precedence [of id default_options
      "quiet_state\<lparr>unhandled_greenlet_exception := True\<rparr>"]
    shutdown_exit_code_precedence [of id default_options quiet_state]
  by (simp add: default_options_def quiet_state_def)

section \<open>Waiting for workers\<close>

lemma wait_for_workers_gives_up:
  assumes "\<forall>ob \<in> set pre. int (ready_workers ob) < expect_workers opts
             \<and> clock_abort ob - start_time \<le> of_int (expect_workers_max_wait opts)"
    and "int (ready_workers ob) < expect_workers opts"
    and "expect_workers_max_wait opts \<noteq> 0"
    and "of_int (expect_workers_max_wait opts) < clock_abort ob - start_time"
  shows "\<exists>tr. wait_for_workers opts start_time (pre @ ob # post) =
           (tr @ [Log ERROR ''Gave up waiting for workers to connect'', RunnerQuit], SysExit 1)
         \<and> set tr \<subseteq> {Log INFO ''Waiting for workers to be ready'',
                      Log DEBUG ''Waiting for workers to be ready'', Sleep 1}"
  using assms
proof (induction pre)
  case Nil
  then show ?case by simp
next
  case (Cons p pre)
  then obtain tr where tr: "wait_for_workers opts start_time (pre @ ob # post) =
           (tr @ [Log ERROR ''Gave up waiting for workers to connect'', RunnerQuit], SysExit 1)"
     and sub: "set tr \<subseteq> {Log INFO ''Waiting for workers to be ready'',
                      Log DEBUG ''Waiting for workers to be ready'', Sleep 1}"
    by auto
  from Cons.prems have p: "int (ready_workers p) < expect_workers opts"
    "\<not> of_int (expect_workers_max_wait opts) < clock_abort p - start_time"
    by auto
  show ?case
  proof (cases "clock_log p - start_time > 5")
    case True
    with p tr sub show ?thesis
      by (intro exI [of _ "Log INFO ''Waiting for workers to be ready'' # Sleep 1 # tr"]) simp
  next
    case False
    with p tr sub show ?thesis
      by (intro exI [of _ "Log DEBUG ''Waiting for workers to be ready'' # Sleep 1 # tr"]) simp
  qed
qed

text \<open>
  C5, as the code has it. On a master, when a maximum wait is set and a poll finds fewer
  ready workers than expected with more than the maximum wait gone by, and no earlier
  poll ended the wait, \<open>start_automatic_run()\<close> logs the error, calls the runner's
  \<open>quit()\<close> and then leaves by \<open>sys.exit(1)\<close>. Before that it has only logged and
  slept. The request the engine receives is \<open>quit()\<close>; its \<open>stop()\<close> is not called.
\<close>

theorem worker_wait_timeout_aborts:
  assumes "master opts"
    and "\<forall>ob \<in> set pre. int (ready_workers ob) < expect_workers opts
             \<and> clock_abort ob - start_time \<le> of_int (expect_workers_max_wait opts)"
    and "int (ready_workers ob) < expect_workers opts"
    and "expect_workers_max_wait opts \<noteq> 0"
    and "of_int (expect_workers_max_wait opts) < clock_abort ob - start_time"
  shows "\<exists>tr. start_automatic_run opts web_ui shape_class start_time (pre @ ob # post) shape =
           (tr @ [Log ERROR ''Gave up waiting for workers to connect'', RunnerQuit], SysExit 1)
         \<and> set tr \<subseteq> {Log INFO ''Waiting for workers to be ready'',
                      Log DEBUG ''Waiting for workers to be ready'', Sleep 1}
         \<and> RunnerStop \<notin> set (fst (start_automatic_run opts web_ui shape_class start_time
                                      (pre @ ob # post) shape))"
proof -
  from wait_for_workers_gives_up [OF assms(2-5), of post]
  obtain tr where w: "wait_for_workers opts start_time (pre @ ob # post) =
           (tr @ [Log ERROR ''Gave up waiting for workers to connect'', RunnerQuit], SysExit 1)"
     and sub: "set tr \<subseteq> {Log INFO ''Waiting for workers to be ready'',
                      Log DEBUG ''Waiting for workers to be ready'', Sleep 1}"
    by blast
  from w assms(1)
  have run: "start_automatic_run opts web_ui shape_class start_time (pre @ ob # post) shape =
           (tr @ [Log ERROR ''Gave up waiting for workers to connect'', RunnerQuit], SysExit 1)"
    by (simp add: start_automatic_run_def)
  from sub have "RunnerStop \<notin> set tr" by auto
  with run sub show ?thesis
    by (intro exI [of _ tr]) simp
qed

theorem worker_wait_timeout_aborts_witness:
  "start_automatic_run
     (default_options\<lparr>headless := True, master := True, expect_workers := 3,
                      expect_workers_max_wait := 5\<rparr>)
     False False 0 (map two_of_three [0, 1, 2, 3, 4, 5] @ two_of_three 6 # []) ShapeDone
   = ([Log DEBUG ''Waiting for workers to be ready'', Sleep 1,
       Log DEBUG ''Waiting for workers to be ready'', Sleep 1,
       Log DEBUG ''Waiting for workers to be ready'', Sleep 1,
       Log DEBUG ''Waiting for workers to be ready'', Sleep 1,
       Log DEBUG ''Waiting for workers to be ready'', Sleep 1,
       Log DEBUG ''Waiting for workers to be ready'', Sleep 1,
       Log ERROR ''Gave up waiting for workers to connect'', RunnerQuit], SysExit 1)"
  using worker_wait_timeout_aborts [of
     "default_options\<lparr>headless := True, master := True, expect_workers := 3,
                      expect_workers_max_wait := 5\<rparr>"
     "map two_of_three [0, 1, 2, 3, 4, 5]" 0 "two_of_three 6" False False "[]" ShapeDone]
  by (simp add: default_options_def two_of_three_def start_automatic_run_def)

text \<open>
  C5 as stated fails in its last part. With three workers expected, a maximum wait of
  five seconds and two workers ready at every poll, the run is given up at the poll
  after six seconds with exit code 1, and the only call the engine has received by then
  is \<open>quit()\<close>: no stop request occurs in the trace.
\<close>

theorem worker_wait_timeout_sends_no_stop:
  "start_automatic_run
     (default_options\<lparr>headless := True, master := True, expect_workers := 3,
                      expect_workers_max_wait := 5\<rparr>)
     False False 0 (map two_of_three [0, 1, 2, 3, 4, 5, 6]) ShapeDone
   = ([Log DEBUG ''Waiting for workers to be ready'', Sleep 1,
       Log DEBUG ''Waiting for workers to be ready'', Sleep 1,
       Log DEBUG ''Waiting for workers to be ready'', Sleep 1,
       Log DEBUG ''Waiting for workers to be ready'', Sleep 1,
       Log DEBUG ''Waiting for workers to be ready'', Sleep 1,
       Log DEBUG ''Waiting for workers to be ready'', Sleep 1,
       Log ERROR ''Gave up waiting for workers to connect'', RunnerQuit], SysExit 1)
   \<and> RunnerStop \<notin> set (fst (start_automatic_run
        (default_options\<lparr>headless := True, master := True, expect_workers := 3,
                         expect_workers_max_wait := 5\<rparr>)
        False False 0 (map two_of_three [0, 1, 2, 3, 4, 5, 6]) ShapeDone))"
  by (simp add: default_options_def two_of_three_def start_automatic_run_def)

section \<open>The run-time limit\<close>

text \<open>
  C6. What \<open>stop_and_optionally_quit()\<close> does when the run-time limit fires. With
  autostart on and headless off, the runner's \<open>stop()\<close> is the first call on the
  engine. With an autoquit delay (any value but \<open>-1\<close>), \<open>quit()\<close> and the stop of
  the web UI (when there is one) come after the sleep of that length, hence after
  \<open>stop()\<close>. With no autoquit delay (\<open>-1\<close>) the function returns after \<open>stop()\<close>
  and a log line, with no \<open>quit()\<close> and no web UI stop; the function has no exit, so
  the process goes on. With headless on, the only call is \<open>quit()\<close>, with no sleep
  before it.
\<close>

theorem run_time_limit_stop_then_quit:
  "(truthy_bool (autostart opts) \<and> \<not> headless opts \<longrightarrow>
      (\<exists>rest. stop_and_optionally_quit opts web_ui =
          Log INFO ''--run-time limit reached, stopping test'' # RunnerStop # rest)
      \<and> (autoquit opts \<noteq> - 1 \<longrightarrow>
           stop_and_optionally_quit opts web_ui =
             [Log INFO ''--run-time limit reached, stopping test'', RunnerStop,
              Log DEBUG ''Autoquit time limit set'', Sleep (of_int (autoquit opts)),
              Log INFO ''--autoquit time reached, shutting down'', RunnerQuit] @
             (if web_ui then [WebUiStop] else []))
      \<and> (autoquit opts = - 1 \<longrightarrow>
           stop_and_optionally_quit opts web_ui =
             [Log INFO ''--run-time limit reached, stopping test'', RunnerStop,
              Log INFO ''--autoquit not specified, leaving web ui running indefinitely'']))
   \<and> (headless opts \<longrightarrow>
        stop_and_optionally_quit opts web_ui =
          [Log INFO ''--run-time limit reached, shutting down'', RunnerQuit])"
  by (auto simp: stop_and_optionally_quit_def)

theorem run_time_limit_stop_then_quit_witness:
  "stop_and_optionally_quit (default_options\<lparr>autostart := Some True, autoquit := 10\<rparr>) True =
     [Log INFO ''--run-time limit reached, stopping test'', RunnerStop,
      Log DEBUG ''Autoquit time limit set'', Sleep 10,
      Log INFO ''--autoquit time reached, shutting down'', RunnerQuit, WebUiStop]
   \<and> stop_and_optionally_quit (default_options\<lparr>autostart := Some True, autoquit := - 5\<rparr>) False =
     [Log INFO ''--run-time limit reached, stopping test'', RunnerStop,
      Log DEBUG ''Autoquit time limit set'', Sleep (- 5),
      Log INFO ''--autoquit time reached, shutting down'', RunnerQuit]
   \<and> stop_and_optionally_quit (default_options\<lparr>autostart := Some True\<rparr>) True =
     [Log INFO ''--run-time limit reached, stopping test'', RunnerStop,
      Log INFO ''--autoquit not specified, leaving web ui running indefinitely'']
   \<and> stop_and_optionally_quit (default_options\<lparr>headless := True\<rparr>) False =
     [Log INFO ''--run-time limit reached, shutting down'', RunnerQuit]"
  using run_time_limit_stop_then_quit [of "default_options\<lparr>autostart := Some True, autoquit := 10\<rparr>" True]
    run_time_limit_stop_then_quit [of "default_options\<lparr>autostart := Some True, autoquit := - 5\<rparr>" False]
    run_time_limit_stop_then_quit [of "default_options\<lparr>autostart := Some True\<rparr>" True]
    run_time_limit_stop_then_quit [of "default_options\<lparr>headless := True\<rparr>" False]
  by (simp add: default_options_def)

section \<open>Final statistics output\<close>

text \<open>
  What holds of the output of final statistics: with a JSON file given, none of the three
  plain-text reports is printed; with neither JSON flag, they are printed exactly on a
  runner that is not a worker runner.
\<close>

lemma print_final_stats_json_file:
  "truthy_str (json_file opts) \<Longrightarrow>
     PrintStats \<notin> set (print_final_stats opts st)
     \<and> PrintPercentileStats \<notin> set (print_final_stats opts st)
     \<and> PrintErrorReport \<notin> set (print_final_stats opts st)"
  by (simp add: print_final_stats_def)

lemma print_final_stats_no_json:
  "\<not> json opts \<Longrightarrow> \<not> truthy_str (json_file opts) \<Longrightarrow>
     print_final_stats opts st =
       (if runner_is_worker st then [] else [PrintStats, PrintPercentileStats, PrintErrorReport])"
  by (simp add: print_final_stats_def)

text \<open>
  C8. The claim that JSON output and the plain-text summary exclude each other fails
  for \<open>--json\<close> without \<open>--json-file\<close> on a process that is not a worker: the
  \<open>elif\<close> that guards the plain-text reports hangs on the test of \<open>json_file\<close>
  alone. \<open>shutdown()\<close> then prints the statistics as JSON and goes on to print the
  summary, the percentiles and the error report.
\<close>

theorem shutdown_json_console_also_prints_summary:
  "fst (shutdown id (default_options\<lparr>json := True\<rparr>) quiet_state) =
     [Log DEBUG ''Running teardowns...'', GreenletKill ''input_listener_greenlet'',
      FireQuitting, Log INFO ''Shutting down (exit code)'',
      Log DEBUG ''Cleaning up runner...'', RunnerQuit,
      PrintStatsJson, PrintStats, PrintPercentileStats, PrintErrorReport, FireQuit 0]"
  by (simp add: shutdown_def determine_exit_code_def print_final_stats_def
      default_options_def quiet_state_def)

section \<open>The forking loop\<close>

lemma fork_body_parent:
  "child_pid \<noteq> 0 \<Longrightarrow>
     fork_body child_pid p =
       (p\<lparr>children := children p @ [child_pid]\<rparr>, [Log DEBUG ''Started child worker with pid''], False)"
  by (simp add: fork_body_def)

lemma fork_body_child:
  "fork_body 0 p =
     (p\<lparr>proc_options := (proc_options p)\<lparr>worker := True, run_time := None,
           autostart := None, csv_prefix := None, html_file := None\<rparr>\<rparr>, [], True)"
  by (simp add: fork_body_def)

lemma fork_loop_parent:
  assumes "\<forall>j < n. fresh (k + j) \<noteq> 0"
  shows "fork_loop fresh k n p tr =
     ((p\<lparr>children := children p @ map fresh [k ..< k + n]\<rparr>,
       tr @ concat (map (\<lambda>j. [Fork (fresh j), Log DEBUG ''Started child worker with pid''])
                    [k ..< k + n]),
       False),
      map (\<lambda>j. (p\<lparr>proc_options := (proc_options p)\<lparr>worker := True, run_time := None,
                       autostart := None, csv_prefix := None, html_file := None\<rparr>,
                    children := children p @ map fresh [k ..< j]\<rparr>, [], True))
          [k ..< k + n],
      k + n)"
  using assms
proof (induction n arbitrary: k p tr)
  case 0
  then show ?case by simp
next
  case (Suc n)
  from Suc.prems have nz: "fresh k \<noteq> 0" by (metis add.right_neutral zero_less_Suc)
  from Suc.prems have rest: "\<forall>j < n. fresh (Suc k + j) \<noteq> 0" by auto
  let ?pp = "p\<lparr>children := children p @ [fresh k]\<rparr>"
  have up: "[k ..< k + Suc n] = k # [Suc k ..< Suc k + n]"
    by (simp add: upt_conv_Cons)
  have ch: "\<And>j. Suc k \<le> j \<Longrightarrow> fresh k # map fresh [Suc k ..< j] = map fresh [k ..< j]"
    by (simp add: upt_conv_Cons)
  show ?case
    unfolding up
    by (auto simp: fork_body_child fork_body_parent [OF nz] Suc.IH [OF rest] ch
        simp del: upt_Suc)
qed

text \<open>
  C4. For a process count \<open>N > 0\<close> in \<open>options.processes\<close> (the value after
  \<open>-1\<close> has been replaced by the number of CPUs), with the system handing out non-zero
  process ids, the forking loop calls \<open>gevent.fork()\<close> exactly \<open>N\<close> times, all in the
  process that started it, so exactly \<open>N\<close> processes are created. Each of them is
  marked as a worker, leaves the loop by \<open>break\<close> at once and has made no call of its
  own. The process that runs the loop does not leave it by \<open>break\<close>, and its list
  \<open>children\<close> holds the \<open>N\<close> process ids in order, so it has length \<open>N\<close>.
\<close>

theorem fork_loop_creates_n_children:
  assumes "processes opts = Some N" and "0 < N"
    and "\<forall>j < nat N. fresh j \<noteq> 0"
  shows "\<exists>p tr kids.
       fork_loop fresh 0 (nat (the (processes opts)))
         \<lparr>proc_options = opts, children = []\<rparr> [] = ((p, tr, False), kids, nat N)
     \<and> p = \<lparr>proc_options = opts, children = map fresh [0 ..< nat N]\<rparr>
     \<and> tr = concat (map (\<lambda>j. [Fork (fresh j), Log DEBUG ''Started child worker with pid''])
                       [0 ..< nat N])
     \<and> kids = map (\<lambda>j. (\<lparr>proc_options = opts\<lparr>worker := True, run_time := None,
                                 autostart := None, csv_prefix := None, html_file := None\<rparr>,
                              children = map fresh [0 ..< j]\<rparr>, [], True))
                   [0 ..< nat N]
     \<and> length (children p) = nat N
     \<and> length kids = nat N"
proof -
  from assms(3) have "\<forall>j < nat N. fresh (0 + j) \<noteq> 0" by simp
  from fork_loop_parent [OF this, of "\<lparr>proc_options = opts, children = []\<rparr>" "[]"] assms(1)
  show ?thesis by simp
qed

theorem fork_loop_creates_n_children_witness:
  "fork_loop (\<lambda>i. 100 + int i) 0 3
     \<lparr>proc_options = default_options\<lparr>processes := Some 3\<rparr>, children = []\<rparr> []
   = ((\<lparr>proc_options = default_options\<lparr>processes := Some 3\<rparr>, children = [100, 101, 102]\<rparr>,
       [Fork 100, Log DEBUG ''Started child worker with pid'',
        Fork 101, Log DEBUG ''Started child worker with pid'',
        Fork 102, Log DEBUG ''Started child worker with pid''],
       False),
      [(\<lparr>proc_options = default_options\<lparr>processes := Some 3, worker := True,
                                            autostart := None\<rparr>, children = []\<rparr>, [], True),
       (\<lparr>proc_options = default_options\<lparr>processes := Some 3, worker := True,
                                            autostart := None\<rparr>, children = [100]\<rparr>, [], True),
       (\<lparr>proc_options = default_options\<lparr>processes := Some 3, worker := True,
                                            autostart := None\<rparr>, children = [100, 101]\<rparr>,
        [], True)],
      3)"
  using fork_loop_creates_n_children [of "default_options\<lparr>processes := Some 3\<rparr>" 3
      "\<lambda>i. 100 + int i"]
  by (simp add: numeral_3_eq_3 default_options_def)

section \<open>Interrupt signals in the parent of workers\<close>

lemma kill_children_sends:
  "c \<in> set chn \<Longrightarrow> OsKill c SIGKILL \<in> set (kill_children os_kill chn)"
  by (induction chn) auto

lemma parent_wait_reaped:
  "length sts \<le> length waiting \<Longrightarrow>
     parent_wait os_kill chn waiting has_run exit_code (map Reaped sts @ evs) =
       parent_wait os_kill chn (drop (length sts) waiting) has_run
         (foldl max exit_code (map waitstatus_to_exitcode sts)) evs"
proof (induction sts arbitrary: waiting exit_code)
  case Nil
  then show ?case by simp
next
  case (Cons s sts)
  then obtain c rest where w: "waiting = c # rest" by (cases waiting) auto
  with Cons.prems have "length sts \<le> length rest" by simp
  from Cons.IH [OF this] w show ?case by simp
qed


text \<open>
  C2. The parent of workers waits for its children with the interrupt handler installed.
  While it still waits for some child, the first interrupt signal sends no kill and ends
  nothing: the parent goes on waiting. A second interrupt signal, however many children
  were reaped before or in between, makes the handler send \<open>SIGKILL\<close> to every process
  id in \<open>children\<close>, hence to every child still alive, and leave by \<open>sys.exit(1)\<close>.
\<close>

theorem second_interrupt_kills_children:
  assumes "length sts1 + length sts2 < length waiting"
  shows "parent_wait os_kill chn waiting False exit_code
           (map Reaped sts1 @ Interrupt # map Reaped sts2) = ([], Pending)
         \<and> parent_wait os_kill chn waiting False exit_code
           (map Reaped sts1 @ Interrupt # map Reaped sts2 @ Interrupt # evs)
            = (kill_children os_kill chn, SysExit 1)
         \<and> (\<forall>c \<in> set chn. OsKill c SIGKILL \<in> set (kill_children os_kill chn))"
proof -
  let ?w1 = "drop (length sts1) waiting"
  let ?e1 = "foldl max exit_code (map waitstatus_to_exitcode sts1)"
  let ?w2 = "drop (length sts2) ?w1"
  let ?e2 = "foldl max ?e1 (map waitstatus_to_exitcode sts2)"
  from assms have l1: "length sts1 \<le> length waiting" and l2: "length sts2 \<le> length ?w1"
    by simp_all
  from assms obtain c1 r1 where w1: "?w1 = c1 # r1" by (cases ?w1) auto
  from assms obtain c2 r2 where w2: "?w2 = c2 # r2" by (cases ?w2) auto
  have first: "\<And>rest. parent_wait os_kill chn waiting False exit_code
                 (map Reaped sts1 @ Interrupt # map Reaped sts2 @ rest)
               = parent_wait os_kill chn ?w2 True ?e2 rest"
  proof -
    fix rest
    have "parent_wait os_kill chn waiting False exit_code
            (map Reaped sts1 @ Interrupt # map Reaped sts2 @ rest)
          = parent_wait os_kill chn ?w1 False ?e1 (Interrupt # map Reaped sts2 @ rest)"
      by (rule parent_wait_reaped [OF l1])
    also have "\<dots> = parent_wait os_kill chn ?w1 True ?e1 (map Reaped sts2 @ rest)"
      by (simp add: w1 sigint_handler_def split: prod.splits)
    also have "\<dots> = parent_wait os_kill chn ?w2 True ?e2 rest"
      by (rule parent_wait_reaped [OF l2])
    finally show "parent_wait os_kill chn waiting False exit_code
                 (map Reaped sts1 @ Interrupt # map Reaped sts2 @ rest)
               = parent_wait os_kill chn ?w2 True ?e2 rest" .
  qed
  have "parent_wait os_kill chn ?w2 True ?e2 [] = ([], Pending)"
    unfolding w2 by simp
  with first [of "[]"] have a: "parent_wait os_kill chn waiting False exit_code
           (map Reaped sts1 @ Interrupt # map Reaped sts2) = ([], Pending)"
    by simp
  have "parent_wait os_kill chn ?w2 True ?e2 (Interrupt # evs)
          = (kill_children os_kill chn, SysExit 1)"
    unfolding w2 by (simp add: sigint_handler_def)
  with first [of "Interrupt # evs"] have b: "parent_wait os_kill chn waiting False exit_code
           (map Reaped sts1 @ Interrupt # map Reaped sts2 @ Interrupt # evs)
            = (kill_children os_kill chn, SysExit 1)"
    by simp
  have c: "\<forall>c \<in> set chn. OsKill c SIGKILL \<in> set (kill_children os_kill chn)"
    by (simp add: kill_children_sends)
  from a b c show ?thesis by (intro conjI)
qed

theorem second_interrupt_kills_children_witness:
  "parent_wait (\<lambda>_. Delivered) [101, 102, 103] [101, 102, 103] False 0
     (map Reaped [Exited 0] @ Interrupt # map Reaped [] ) = ([], Pending)
   \<and> parent_wait (\<lambda>_. Delivered) [101, 102, 103] [101, 102, 103] False 0
     (map Reaped [Exited 0] @ Interrupt # map Reaped [] @ Interrupt # [Reaped (Exited 0)])
     = ([Log DEBUG ''Sending SIGKILL to child with pid'', OsKill 101 SIGKILL,
         Log DEBUG ''Sending SIGKILL to child with pid'', OsKill 102 SIGKILL,
         Log DEBUG ''Sending SIGKILL to child with pid'', OsKill 103 SIGKILL], SysExit 1)"
  using second_interrupt_kills_children [of "[Exited 0]" "[]" "[101, 102, 103]"
      "\<lambda>_. Delivered" "[101, 102, 103]" 0 "[Reaped (Exited 0)]"]
  by simp

section \<open>The exit code of a parent\<close>















section \<open>Duplicate class names in the merge\<close>















section \<open>The run-time limit and autostart\<close>

text \<open>
  C7, as the code has it. What the configuration checks reject when autostart is off is
  an autoquit delay, not a run-time limit: with \<open>--autoquit\<close> other than \<open>-1\<close> and
  autostart off, \<open>main()\<close> writes the message and leaves by \<open>sys.exit(1)\<close> before any
  process is forked and before any greenlet is spawned. The checks before the fork never
  look at the run-time limit: without an autoquit delay and without \<open>--processes\<close> they
  pass whatever the run-time limit and autostart are.
\<close>

theorem autoquit_without_autostart_rejected:
  "(autoquit opts \<noteq> - 1 \<and> \<not> truthy_bool (autostart opts)
      \<and> merge_locustfiles_content (world_load_locustfile w) (world_sys_modules w) files
            = ([], Returns r)
      \<longrightarrow> main_startup w files opts =
            ([Stderr ''--autoquit is only meaningful in combination with --autostart''],
             SysExit 1))
   \<and> (autoquit opts = - 1 \<and> \<not> truthy_int (processes opts)
      \<longrightarrow> pre_fork_checks os cpu (opts\<lparr>run_time := limit\<rparr>) =
            ([Log INFO ''Starting Locust''],
             Returns ((if headful opts then opts\<lparr>headless := False\<rparr> else opts)
                        \<lparr>run_time := limit\<rparr>)))"
  by (cases r) (auto simp: main_startup_def pre_fork_checks_def Let_def)

theorem autoquit_without_autostart_rejected_witness:
  "main_startup plain_world [''locustfile.py''] (default_options\<lparr>autoquit := 5\<rparr>) =
     ([Stderr ''--autoquit is only meaningful in combination with --autostart''], SysExit 1)
   \<and> pre_fork_checks ''posix'' (Some 4) (default_options\<lparr>run_time := Some 60\<rparr>) =
     ([Log INFO ''Starting Locust''], Returns (default_options\<lparr>run_time := Some 60\<rparr>))"
  using autoquit_without_autostart_rejected [of "default_options\<lparr>autoquit := 5\<rparr>" plain_world
      "[''locustfile.py'']"
      "(\<lparr>available_user_classes = fst one_user_file, available_shape_classes = [],
         available_user_tasks = [(''WebsiteUser'', [''index''])]\<rparr>, None)"]
    autoquit_without_autostart_rejected [of default_options plain_world "[]"
      "(\<lparr>available_user_classes = [], available_shape_classes = [],
         available_user_tasks = []\<rparr>, None)" "''posix''" "Some 4" "Some 60"]
  by (simp add: default_options_def plain_world_def one_user_file_def
      merge_locustfiles_content_def)

text \<open>
  C7 as stated fails: a run-time limit of 60 seconds with autostart off passes every
  check up to the creation of the runner. Without \<open>--headless\<close>, \<open>main()\<close> then never
  calls \<open>start_automatic_run()\<close>, which alone arms the timer. With \<open>--headless\<close> the
  same limit is accepted as well, and the timer is armed.
\<close>

theorem run_time_without_autostart_accepted:
  "main_startup plain_world [''locustfile.py''] (default_options\<lparr>run_time := Some 60\<rparr>) =
     ([Log INFO ''Starting Locust''],
      Returns (default_options\<lparr>run_time := Some 60\<rparr>, LocalRunner))
   \<and> \<not> calls_start_automatic_run (default_options\<lparr>run_time := Some 60\<rparr>)
   \<and> main_startup plain_world [''locustfile.py'']
         (default_options\<lparr>headless := True, run_time := Some 60\<rparr>) =
     ([Log INFO ''Starting Locust''],
      Returns (default_options\<lparr>headless := True, run_time := Some 60\<rparr>, LocalRunner))
   \<and> start_automatic_run (default_options\<lparr>headless := True, run_time := Some 60\<rparr>)
         False False 0 [] ShapeDone =
     ([Spawn ''runner.start'', Log INFO ''Run time limit set'',
       SpawnLater 60 ''stop_and_optionally_quit''],
      Returns (default_options\<lparr>headless := True, run_time := Some 60,
                              num_users := Some 1, spawn_rate := Some 1\<rparr>))"
  by (simp add: main_startup_def merge_locustfiles_content_def pre_fork_checks_def
      fork_stage_def post_fork_checks_def calls_start_automatic_run_def
      start_automatic_run_def start_test_def
      default_options_def plain_world_def one_user_file_def)

section \<open>Exit codes of the configuration checks\<close>

text \<open>
  C9, as the code has it. Every exit of the checks before the forking loop is with code
  1, and no process has been forked and no greenlet spawned by then. These checks
  reject an autoquit delay without autostart, a process count below \<open>-1\<close>, and
  \<open>--master\<close> together with a positive process count. \<open>--master\<close> together with
  \<open>--worker\<close>, and an expected-worker count below 1 on a master, are found by the
  checks after the forking loop, which then exit with code \<open>-1\<close>.
\<close>

theorem invalid_flag_combinations_exit_codes:
  "(pre_fork_checks os cpu opts = (tr, SysExit c)
      \<longrightarrow> c = 1 \<and> (\<forall>pid. Fork pid \<notin> set tr) \<and> (\<forall>name. Spawn name \<notin> set tr))
   \<and> (autoquit opts \<noteq> - 1 \<and> \<not> truthy_bool (autostart opts)
      \<longrightarrow> snd (pre_fork_checks os cpu opts) = SysExit 1)
   \<and> (processes opts = Some n \<and> (n < - 1 \<or> 1 \<le> n \<and> master opts)
      \<longrightarrow> snd (pre_fork_checks os cpu opts) = SysExit 1)
   \<and> (master opts \<and> (worker opts \<or> expect_workers opts < 1)
        \<and> \<not> list_commands opts \<and> available \<noteq> []
        \<and> set (user_classes_opt opts) \<subseteq> set available
        \<and> (config = None \<or> config = Some ConfigApplied)
        \<and> \<not> show_task_ratio opts \<and> \<not> show_task_ratio_json opts
      \<longrightarrow> snd (post_fork_checks available config connects opts) = SysExit (- 1))"
proof (intro conjI impI)
  assume "pre_fork_checks os cpu opts = (tr, SysExit c)"
  then show "c = 1" by (auto simp: pre_fork_checks_def Let_def split: if_splits)
next
  assume "pre_fork_checks os cpu opts = (tr, SysExit c)"
  then show "\<forall>pid. Fork pid \<notin> set tr"
    by (auto simp: pre_fork_checks_def Let_def split: if_splits)
next
  assume "pre_fork_checks os cpu opts = (tr, SysExit c)"
  then show "\<forall>name. Spawn name \<notin> set tr"
    by (auto simp: pre_fork_checks_def Let_def split: if_splits)
next
  assume "autoquit opts \<noteq> - 1 \<and> \<not> truthy_bool (autostart opts)"
  then show "snd (pre_fork_checks os cpu opts) = SysExit 1"
    by (simp add: pre_fork_checks_def Let_def)
next
  assume "processes opts = Some n \<and> (n < - 1 \<or> 1 \<le> n \<and> master opts)"
  then show "snd (pre_fork_checks os cpu opts) = SysExit 1"
    by (auto simp: pre_fork_checks_def Let_def)
next
  assume "master opts \<and> (worker opts \<or> expect_workers opts < 1)
        \<and> \<not> list_commands opts \<and> available \<noteq> []
        \<and> set (user_classes_opt opts) \<subseteq> set available
        \<and> (config = None \<or> config = Some ConfigApplied)
        \<and> \<not> show_task_ratio opts \<and> \<not> show_task_ratio_json opts"
  then show "snd (post_fork_checks available config connects opts) = SysExit (- 1)"
    by (auto simp: post_fork_checks_def)
qed

theorem invalid_flag_combinations_exit_codes_witness:
  "pre_fork_checks ''posix'' (Some 4) (default_options\<lparr>processes := Some 2, master := True\<rparr>) =
     ([Log INFO ''Starting Locust'',
       Stderr ''--master cannot be combined with --processes. Remove --master, as it is implicit as long as --worker is not set.''],
      SysExit 1)
   \<and> snd (pre_fork_checks ''posix'' (Some 4) (default_options\<lparr>autoquit := 5\<rparr>)) = SysExit 1
   \<and> snd (pre_fork_checks ''posix'' (Some 4) (default_options\<lparr>processes := Some (- 2)\<rparr>))
       = SysExit 1
   \<and> snd (post_fork_checks [''WebsiteUser''] None True
            (default_options\<lparr>master := True, expect_workers := 0\<rparr>)) = SysExit (- 1)"
  using invalid_flag_combinations_exit_codes [of "''posix''" "Some 4"
      "default_options\<lparr>processes := Some 2, master := True\<rparr>"
      "[Log INFO ''Starting Locust'',
       Stderr ''--master cannot be combined with --processes. Remove --master, as it is implicit as long as --worker is not set.'']"
      1 2 "[''WebsiteUser'']" None True]
    invalid_flag_combinations_exit_codes [of "''posix''" "Some 4"
      "default_options\<lparr>autoquit := 5\<rparr>" "[]" 1 0 "[''WebsiteUser'']" None True]
    invalid_flag_combinations_exit_codes [of "''posix''" "Some 4"
      "default_options\<lparr>processes := Some (- 2)\<rparr>" "[]" 1 "- 2" "[''WebsiteUser'']" None True]
    invalid_flag_combinations_exit_codes [of "''posix''" "Some 4"
      "default_options\<lparr>master := True, expect_workers := 0\<rparr>" "[]" 1 0
      "[''WebsiteUser'']" None True]
  by (simp add: default_options_def pre_fork_checks_def)

text \<open>
  C9 as stated fails for two of its own examples: \<open>--master\<close> with \<open>--worker\<close>, and
  \<open>--master\<close> with \<open>--expect-workers 0\<close>, end \<open>main()\<close> by \<open>sys.exit(-1)\<close>, not with
  exit code 1.
\<close>

theorem master_with_worker_exits_minus_one:
  "main_startup plain_world [''locustfile.py''] (default_options\<lparr>master := True, worker := True\<rparr>)
     = ([Log INFO ''Starting Locust'',
         Log ERROR ''The --master argument cannot be combined with --worker''], SysExit (- 1))
   \<and> main_startup plain_world [''locustfile.py'']
        (default_options\<lparr>master := True, expect_workers := 0\<rparr>)
     = ([Log INFO ''Starting Locust'',
         Log ERROR ''Invalid --expect-workers argument, must be a positive number''],
        SysExit (- 1))"
  by (simp add: main_startup_def merge_locustfiles_content_def pre_fork_checks_def
      fork_stage_def post_fork_checks_def
      default_options_def plain_world_def one_user_file_def)

end
